theory Spec2Isabelle
  imports Main "HOL-Library.AList"
begin

section \<open>The OpenAI-compatible provider of nanobot: response aggregation\<close>

text \<open>
  A shallow embedding of \<^verbatim>\<open>nanobot/providers/custom_provider.py\<close>: the
  non-stream parser \<^verbatim>\<open>_parse\<close>, the stream aggregator
  \<^verbatim>\<open>_consume_stream\<close> and the error boundary of \<^verbatim>\<open>chat\<close>.
  Python strings are \<open>string\<close>, Python integers are \<open>int\<close>, an optional
  attribute is an \<open>option\<close>, a raised exception is the \<open>Inl\<close> branch of a sum.
\<close>

subsection \<open>Values and exceptions\<close>

text \<open>
  The structured values a JSON decoder returns. A Python \<^verbatim>\<open>dict\<close> is kept as an
  association list; \<open>JDict []\<close> is the empty mapping \<^verbatim>\<open>{}\<close>.
\<close>

datatype json =
    JNull
  | JBool bool
  | JInt int
  | JStr string
  | JList "json list"
  | JDict "(string \<times> json) list"

text \<open>
  Python separates the exceptions that \<^verbatim>\<open>except Exception\<close> catches from those it
  does not: \<open>PyException msg\<close> is an instance of \<^verbatim>\<open>Exception\<close> whose
  \<^verbatim>\<open>str(e)\<close> is \<open>msg\<close>; \<open>PyBaseException msg\<close> is an instance of
  \<^verbatim>\<open>BaseException\<close> outside \<^verbatim>\<open>Exception\<close>
  (\<^verbatim>\<open>asyncio.CancelledError\<close>, \<^verbatim>\<open>KeyboardInterrupt\<close>,
  \<^verbatim>\<open>SystemExit\<close>).
\<close>

datatype py_exc = PyException string | PyBaseException string

subsection \<open>The output contract\<close>

text \<open>\<^verbatim>\<open>ToolCallRequest\<close> and \<^verbatim>\<open>LLMResponse\<close>, as the provider fills them.\<close>

record ToolCallRequest =
  tcr_id :: string
  tcr_name :: string
  tcr_arguments :: json

record LLMResponse =
  content :: "string option"
  tool_calls :: "ToolCallRequest list"
  finish_reason :: string
  usage :: "(string \<times> int) list"
  reasoning_content :: "string option"

subsection \<open>What the completion source delivers\<close>

text \<open>The usage object of a completion or of a chunk.\<close>

record usage_obj =
  prompt_tokens :: int
  completion_tokens :: int
  total_tokens :: int

text \<open>A streamed chunk: \<^verbatim>\<open>chunk.choices[0].delta.tool_calls[k].function\<close> and above.\<close>

record fn_delta =
  fd_name :: "string option"
  fd_arguments :: "string option"

record tc_delta =
  td_index :: int
  td_id :: "string option"
  td_function :: "fn_delta option"

record delta =
  d_content :: "string option"
  d_reasoning_content :: "string option"
  d_tool_calls :: "tc_delta list option"

record stream_choice =
  sc_finish_reason :: "string option"
  sc_delta :: "delta option"

record chunk =
  ch_choices :: "stream_choice list"
  ch_usage :: "usage_obj option"

text \<open>
  A complete (non-stream) completion object. The arguments of a tool call are a string,
  or a value that the source has already decoded (the \<^verbatim>\<open>isinstance(..., str)\<close>
  test of \<^verbatim>\<open>_parse\<close>).
\<close>

datatype raw_arguments = ArgString string | ArgStructured json

record fn_call =
  fn_name :: string
  fn_arguments :: raw_arguments

record tool_call =
  tc_id :: string
  tc_function :: fn_call

record message =
  m_content :: "string option"
  m_tool_calls :: "tool_call list option"
  m_reasoning_content :: "string option"

record completion_choice =
  cc_message :: message
  cc_finish_reason :: "string option"

record completion =
  cp_choices :: "completion_choice list"
  cp_usage :: "usage_obj option"

text \<open>
  An asynchronous stream: the chunks it yields, in arrival order, and how the iteration
  ends, by exhaustion (\<open>None\<close>) or by raising (\<open>Some e\<close>).
\<close>

type_synonym chunk_stream = "chunk list \<times> py_exc option"

text \<open>
  The provider object: its \<^verbatim>\<open>stream\<close> flag, and what
  \<^verbatim>\<open>self._client.chat.completions.create\<close> does when it is awaited without and
  with \<^verbatim>\<open>stream=True\<close>: it raises, or returns a completion, respectively a stream.
\<close>

record provider =
  stream :: bool
  create_completion :: "py_exc + completion"
  create_stream :: "py_exc + chunk_stream"

subsection \<open>Python truthiness and dictionaries\<close>

text \<open>
  \<^verbatim>\<open>if v: ...\<close> on an optional string runs the branch when \<open>v\<close> is neither
  \<^verbatim>\<open>None\<close> nor the empty string.
\<close>

fun if_str :: "string option \<Rightarrow> (string \<Rightarrow> 'a \<Rightarrow> 'a) \<Rightarrow> 'a \<Rightarrow> 'a" where
  "if_str None f x = x"
| "if_str (Some s) f x = (if s = [] then x else f s x)"

text \<open>\<^verbatim>\<open>v or None\<close> on an optional string.\<close>

fun or_None :: "string option \<Rightarrow> string option" where
  "or_None None = None"
| "or_None (Some s) = (if s = [] then None else Some s)"

text \<open>\<^verbatim>\<open>"".join(parts) or None\<close>.\<close>

definition join_or_None :: "string list \<Rightarrow> string option" where
  "join_or_None parts = or_None (Some (concat parts))"

text \<open>The dictionary built from a usage object, with the keys in the order of the source.\<close>

definition usage_dict :: "usage_obj \<Rightarrow> (string \<times> int) list" where
  "usage_dict u =
     [(''prompt_tokens'', prompt_tokens u),
      (''completion_tokens'', completion_tokens u),
      (''total_tokens'', total_tokens u)]"

subsection \<open>The stream aggregator\<close>

text \<open>
  One value of \<^verbatim>\<open>tool_calls_by_index\<close>: the dictionary
  \<^verbatim>\<open>{"id": ..., "name": ..., "arguments": ...}\<close>.
\<close>

record entry =
  e_id :: string
  e_name :: string
  e_arguments :: string

definition new_entry :: entry where
  "new_entry = \<lparr>e_id = [], e_name = [], e_arguments = []\<rparr>"

text \<open>
  The local variables of \<^verbatim>\<open>_consume_stream\<close>. The dictionary
  \<^verbatim>\<open>tool_calls_by_index\<close> is an association list in insertion order, as a Python
  dictionary is.
\<close>

record state =
  content_parts :: "string list"
  tool_calls_by_index :: "(int \<times> entry) list"
  st_finish_reason :: string
  st_usage :: "(string \<times> int) list"
  reasoning_parts :: "string list"

definition init_state :: state where
  "init_state =
     \<lparr>content_parts = [], tool_calls_by_index = [], st_finish_reason = ''stop'',
      st_usage = [], reasoning_parts = []\<rparr>"

text \<open>
  The body of \<^verbatim>\<open>for tc_delta in delta.tool_calls\<close>: the entry at the index is
  created when it is missing, its id and name are overwritten by a non-empty one, and a
  non-empty argument substring is appended. \<open>AList.update\<close> replaces the value of a key
  in place and appends a new key at the end.
\<close>

definition update_entry :: "tc_delta \<Rightarrow> entry \<Rightarrow> entry" where
  "update_entry tcd e =
     (let e1 = if_str (td_id tcd) (\<lambda>s e. e\<lparr>e_id := s\<rparr>) e
      in case td_function tcd of
           None \<Rightarrow> e1
         | Some f \<Rightarrow>
             (let e2 = if_str (fd_name f) (\<lambda>s e. e\<lparr>e_name := s\<rparr>) e1
              in if_str (fd_arguments f) (\<lambda>s e. e\<lparr>e_arguments := e_arguments e @ s\<rparr>) e2))"

definition merge_tc_delta :: "(int \<times> entry) list \<Rightarrow> tc_delta \<Rightarrow> (int \<times> entry) list" where
  "merge_tc_delta m tcd =
     (let idx = td_index tcd;
          e = (case map_of m idx of None \<Rightarrow> new_entry | Some e \<Rightarrow> e)
      in AList.update idx (update_entry tcd e) m)"

fun merge_tc_deltas :: "(int \<times> entry) list \<Rightarrow> tc_delta list \<Rightarrow> (int \<times> entry) list" where
  "merge_tc_deltas m [] = m"
| "merge_tc_deltas m (tcd # tcds) = merge_tc_deltas (merge_tc_delta m tcd) tcds"

text \<open>The sub-extractions of one delta: content, reasoning content, tool calls.\<close>

definition process_delta :: "state \<Rightarrow> delta \<Rightarrow> state" where
  "process_delta st d =
     (let st1 = if_str (d_content d) (\<lambda>s st. st\<lparr>content_parts := content_parts st @ [s]\<rparr>) st;
          st2 = if_str (d_reasoning_content d)
                  (\<lambda>s st. st\<lparr>reasoning_parts := reasoning_parts st @ [s]\<rparr>) st1
      in case d_tool_calls d of
           None \<Rightarrow> st2
         | Some tcds \<Rightarrow>
             (if tcds = [] then st2
              else st2\<lparr>tool_calls_by_index := merge_tc_deltas (tool_calls_by_index st2) tcds\<rparr>))"

text \<open>The body of \<^verbatim>\<open>async for chunk in stream\<close>.\<close>

definition process_chunk :: "state \<Rightarrow> chunk \<Rightarrow> state" where
  "process_chunk st c =
     (case ch_choices c of
        [] \<Rightarrow>
          (case ch_usage c of
             Some u \<Rightarrow> st\<lparr>st_usage := usage_dict u\<rparr>
           | None \<Rightarrow> st)
      | choice # _ \<Rightarrow>
          (let st1 = if_str (sc_finish_reason choice) (\<lambda>s st. st\<lparr>st_finish_reason := s\<rparr>) st
           in case sc_delta choice of
                None \<Rightarrow> st1
              | Some d \<Rightarrow> process_delta st1 d))"

fun process_chunks :: "state \<Rightarrow> chunk list \<Rightarrow> state" where
  "process_chunks st [] = st"
| "process_chunks st (c # cs) = process_chunks (process_chunk st c) cs"

text \<open>
  \<^verbatim>\<open>sorted(tool_calls_by_index.items())\<close> orders the pairs by their key; the keys of a
  dictionary are distinct, so the values are never compared.
\<close>

definition sorted_items :: "(int \<times> entry) list \<Rightarrow> (int \<times> entry) list" where
  "sorted_items m = sort_key fst m"

text \<open>
  One \<^verbatim>\<open>ToolCallRequest\<close> of the stream path. The decoder
  \<^verbatim>\<open>json_repair.loads\<close> is a library outside the repository and is the parameter
  \<open>loads\<close>: a function from the argument string to the value it returns.
\<close>

definition assemble :: "(string \<Rightarrow> json) \<Rightarrow> entry \<Rightarrow> ToolCallRequest" where
  "assemble loads tc =
     \<lparr>tcr_id = e_id tc, tcr_name = e_name tc,
      tcr_arguments = (if e_arguments tc \<noteq> [] then loads (e_arguments tc) else JDict [])\<rparr>"

definition finish_stream :: "(string \<Rightarrow> json) \<Rightarrow> state \<Rightarrow> LLMResponse" where
  "finish_stream loads st =
     \<lparr>content = join_or_None (content_parts st),
      tool_calls = map (\<lambda>(_, tc). assemble loads tc) (sorted_items (tool_calls_by_index st)),
      finish_reason = st_finish_reason st,
      usage = st_usage st,
      reasoning_content = join_or_None (reasoning_parts st)\<rparr>"

definition aggregate :: "(string \<Rightarrow> json) \<Rightarrow> chunk list \<Rightarrow> LLMResponse" where
  "aggregate loads cs = finish_stream loads (process_chunks init_state cs)"

text \<open>
  \<^verbatim>\<open>_consume_stream\<close>: the loop runs over the chunks the stream yields; when the
  iteration raises, the exception leaves the function and the locals are lost.
\<close>

definition consume_stream :: "(string \<Rightarrow> json) \<Rightarrow> chunk_stream \<Rightarrow> py_exc + LLMResponse" where
  "consume_stream loads s =
     (case s of
        (cs, Some e) \<Rightarrow> Inl e
      | (cs, None) \<Rightarrow> Inr (aggregate loads cs))"

subsection \<open>The non-stream parser\<close>

definition parse_tool_call :: "(string \<Rightarrow> json) \<Rightarrow> tool_call \<Rightarrow> ToolCallRequest" where
  "parse_tool_call loads tc =
     \<lparr>tcr_id = tc_id tc, tcr_name = fn_name (tc_function tc),
      tcr_arguments =
        (case fn_arguments (tc_function tc) of
           ArgString s \<Rightarrow> loads s
         | ArgStructured v \<Rightarrow> v)\<rparr>"

text \<open>
  \<^verbatim>\<open>_parse\<close>; \<^verbatim>\<open>response.choices[0]\<close> raises
  \<^verbatim>\<open>IndexError\<close> on an empty list.
\<close>

definition parse :: "(string \<Rightarrow> json) \<Rightarrow> completion \<Rightarrow> py_exc + LLMResponse" where
  "parse loads response =
     (case cp_choices response of
        [] \<Rightarrow> Inl (PyException ''list index out of range'')
      | choice # _ \<Rightarrow>
          (let msg = cc_message choice;
               tcs = map (parse_tool_call loads)
                       (case m_tool_calls msg of None \<Rightarrow> [] | Some l \<Rightarrow> l)
           in Inr \<lparr>content = m_content msg,
                   tool_calls = tcs,
                   finish_reason = if_str (cc_finish_reason choice) (\<lambda>s _. s) ''stop'',
                   usage = (case cp_usage response of Some u \<Rightarrow> usage_dict u | None \<Rightarrow> []),
                   reasoning_content = or_None (m_reasoning_content msg)\<rparr>))"

subsection \<open>The public entry point\<close>

text \<open>The body of the \<^verbatim>\<open>try\<close> block of \<^verbatim>\<open>chat\<close>.\<close>

definition try_body :: "(string \<Rightarrow> json) \<Rightarrow> provider \<Rightarrow> py_exc + LLMResponse" where
  "try_body loads p =
     (if stream p then
        (case create_stream p of
           Inl e \<Rightarrow> Inl e
         | Inr s \<Rightarrow> consume_stream loads s)
      else
        (case create_completion p of
           Inl e \<Rightarrow> Inl e
         | Inr r \<Rightarrow> parse loads r))"

text \<open>
  \<^verbatim>\<open>LLMResponse(content=f"Error: {e}", finish_reason="error")\<close>; the other fields
  take the defaults of the dataclass.
\<close>

definition error_response :: "string \<Rightarrow> LLMResponse" where
  "error_response msg =
     \<lparr>content = Some (''Error: '' @ msg), tool_calls = [], finish_reason = ''error'',
      usage = [], reasoning_content = None\<rparr>"

text \<open>
  \<^verbatim>\<open>chat\<close>, from the \<^verbatim>\<open>try\<close> on: \<^verbatim>\<open>except Exception\<close> turns an
  instance of \<^verbatim>\<open>Exception\<close> into a response and lets any other exception through.
\<close>

definition chat :: "(string \<Rightarrow> json) \<Rightarrow> provider \<Rightarrow> py_exc + LLMResponse" where
  "chat loads p =
     (case try_body loads p of
        Inr r \<Rightarrow> Inr r
      | Inl (PyException msg) \<Rightarrow> Inr (error_response msg)
      | Inl (PyBaseException msg) \<Rightarrow> Inl (PyBaseException msg))"

subsection \<open>What the chunks supply\<close>

text \<open>
  The reference notions the properties are stated against, read off the chunk sequence
  alone: the substrings, finish reasons and tool-call fragments the chunks carry, in
  arrival order. Only the first choice of a chunk is looked at, as in the source.
\<close>

fun supplied :: "string option \<Rightarrow> string list" where
  "supplied None = []"
| "supplied (Some s) = [s]"

definition first_delta :: "chunk \<Rightarrow> delta option" where
  "first_delta c = (case ch_choices c of [] \<Rightarrow> None | choice # _ \<Rightarrow> sc_delta choice)"

definition content_pieces :: "chunk list \<Rightarrow> string list" where
  "content_pieces cs =
     concat (map (\<lambda>c. case first_delta c of None \<Rightarrow> [] | Some d \<Rightarrow> supplied (d_content d)) cs)"

definition reasoning_pieces :: "chunk list \<Rightarrow> string list" where
  "reasoning_pieces cs =
     concat (map (\<lambda>c. case first_delta c of None \<Rightarrow> []
                      | Some d \<Rightarrow> supplied (d_reasoning_content d)) cs)"

text \<open>The non-empty finish reasons of the first choices.\<close>

definition finish_reasons :: "chunk list \<Rightarrow> string list" where
  "finish_reasons cs =
     concat (map (\<lambda>c. case ch_choices c of [] \<Rightarrow> []
                      | choice # _ \<Rightarrow> filter (\<lambda>s. s \<noteq> []) (supplied (sc_finish_reason choice))) cs)"

text \<open>The last element of a list, or a default when there is none.\<close>

definition last_or :: "'a \<Rightarrow> 'a list \<Rightarrow> 'a" where
  "last_or d xs = (if xs = [] then d else last xs)"

text \<open>The tool-call fragments of a chunk, of a chunk sequence, and those of one index.\<close>

definition chunk_tc_deltas :: "chunk \<Rightarrow> tc_delta list" where
  "chunk_tc_deltas c =
     (case first_delta c of None \<Rightarrow> []
      | Some d \<Rightarrow> (case d_tool_calls d of None \<Rightarrow> [] | Some l \<Rightarrow> l))"

definition all_tc_deltas :: "chunk list \<Rightarrow> tc_delta list" where
  "all_tc_deltas cs = concat (map chunk_tc_deltas cs)"

definition fragments :: "int \<Rightarrow> chunk list \<Rightarrow> tc_delta list" where
  "fragments i cs = filter (\<lambda>t. td_index t = i) (all_tc_deltas cs)"

text \<open>The non-empty ids and names, and the argument substrings, that fragments supply.\<close>

definition supplied_ids :: "tc_delta list \<Rightarrow> string list" where
  "supplied_ids fs = filter (\<lambda>s. s \<noteq> []) (concat (map (\<lambda>t. supplied (td_id t)) fs))"

definition supplied_names :: "tc_delta list \<Rightarrow> string list" where
  "supplied_names fs =
     filter (\<lambda>s. s \<noteq> [])
       (concat (map (\<lambda>t. case td_function t of None \<Rightarrow> [] | Some f \<Rightarrow> supplied (fd_name f)) fs))"

definition supplied_args :: "tc_delta list \<Rightarrow> string list" where
  "supplied_args fs =
     concat (map (\<lambda>t. case td_function t of None \<Rightarrow> [] | Some f \<Rightarrow> supplied (fd_arguments f)) fs)"

text \<open>
  An entry after a run of fragments: the last id and name supplied, or those it had, and
  the argument substrings appended in arrival order.
\<close>

definition merged :: "entry \<Rightarrow> tc_delta list \<Rightarrow> entry" where
  "merged e fs =
     \<lparr>e_id = last_or (e_id e) (supplied_ids fs),
      e_name = last_or (e_name e) (supplied_names fs),
      e_arguments = e_arguments e @ concat (supplied_args fs)\<rparr>"

text \<open>
  The tool calls of the aggregated response, each paired with the fragment index it was
  built from (a \<^verbatim>\<open>ToolCallRequest\<close> does not record its index).
\<close>

definition indexed_calls :: "(string \<Rightarrow> json) \<Rightarrow> chunk list \<Rightarrow> (int \<times> ToolCallRequest) list" where
  "indexed_calls loads cs =
     map (\<lambda>(i, tc). (i, assemble loads tc))
       (sorted_items (tool_calls_by_index (process_chunks init_state cs)))"

subsection \<open>Sample inputs\<close>

text \<open>
  A decoder to run the aggregator on concrete inputs: it decodes two documents and, like
  \<^verbatim>\<open>json_repair\<close> on a string it cannot repair, returns the empty string
  otherwise. \<open>sample_strict\<close> is the strict decoder on the same documents.
\<close>

definition sample_loads :: "string \<Rightarrow> json" where
  \<open>sample_loads s =
     (if s = ''{"a":1,"b":2}'' then JDict [(''a'', JInt 1), (''b'', JInt 2)]
      else if s = ''{}'' then JDict []
      else JStr [])\<close>

definition sample_strict :: "string \<Rightarrow> json option" where
  \<open>sample_strict s =
     (if s = ''{"a":1,"b":2}'' then Some (JDict [(''a'', JInt 1), (''b'', JInt 2)])
      else if s = ''{}'' then Some (JDict [])
      else None)\<close>

text \<open>A chunk with one choice that carries a delta, and one with a single tool-call fragment.\<close>

definition delta_chunk :: "delta \<Rightarrow> string option \<Rightarrow> chunk" where
  "delta_chunk d fr =
     \<lparr>ch_choices = [\<lparr>sc_finish_reason = fr, sc_delta = Some d\<rparr>], ch_usage = None\<rparr>"

definition tc_chunk :: "int \<Rightarrow> string option \<Rightarrow> string option \<Rightarrow> string option \<Rightarrow> chunk" where
  "tc_chunk i ident name args =
     delta_chunk
       \<lparr>d_content = None, d_reasoning_content = None,
        d_tool_calls = Some [\<lparr>td_index = i, td_id = ident,
                               td_function = Some \<lparr>fd_name = name, fd_arguments = args\<rparr>\<rparr>]\<rparr>
       None"

text \<open>A chunk that carries text, and the usage-only chunk that ends a stream.\<close>

definition text_chunk :: "string option \<Rightarrow> string option \<Rightarrow> string option \<Rightarrow> chunk" where
  "text_chunk c r fr =
     delta_chunk \<lparr>d_content = c, d_reasoning_content = r, d_tool_calls = None\<rparr> fr"

definition usage_chunk :: "int \<Rightarrow> int \<Rightarrow> int \<Rightarrow> chunk" where
  "usage_chunk p c t =
     \<lparr>ch_choices = [],
      ch_usage = Some \<lparr>prompt_tokens = p, completion_tokens = c, total_tokens = t\<rparr>\<rparr>"

text \<open>The argument string of one tool call, split over three chunks.\<close>

definition split_arguments :: "chunk list" where
  \<open>split_arguments =
     [tc_chunk 0 (Some ''call_1'') (Some ''f'') (Some ''{"a":''),
      tc_chunk 0 None None (Some ''1,"b":''),
      tc_chunk 0 None None (Some ''2}'')]\<close>

text \<open>A completion object with one tool call and no usage object.\<close>

definition tool_completion :: "string \<Rightarrow> string \<Rightarrow> raw_arguments \<Rightarrow> completion" where
  "tool_completion ident name args =
     \<lparr>cp_choices =
        [\<lparr>cc_message =
            \<lparr>m_content = None,
             m_tool_calls = Some [\<lparr>tc_id = ident,
                                    tc_function = \<lparr>fn_name = name, fn_arguments = args\<rparr>\<rparr>],
             m_reasoning_content = None\<rparr>,
          cc_finish_reason = Some ''tool_calls''\<rparr>],
      cp_usage = None\<rparr>"

text \<open>
  A provider in streaming mode whose source returns the given stream, and one whose task
  is cancelled while the first chunk is awaited (\<^verbatim>\<open>str(asyncio.CancelledError())\<close>
  is the empty string).
\<close>

definition stream_provider :: "chunk_stream \<Rightarrow> provider" where
  "stream_provider s =
     \<lparr>stream = True, create_completion = Inl (PyException ''not called''),
      create_stream = Inr s\<rparr>"

definition cancelled_stream :: provider where
  "cancelled_stream = stream_provider ([], Some (PyBaseException []))"

section \<open>Properties\<close>

subsection \<open>The loop, field by field\<close>

lemma if_str_cases:
  "if_str v f x = (case v of None \<Rightarrow> x | Some s \<Rightarrow> if s = [] then x else f s x)"
  by (cases v) simp_all

lemma process_chunks_append:
  "process_chunks st (cs @ cs') = process_chunks (process_chunks st cs) cs'"
  by (induction cs arbitrary: st) simp_all

lemma merge_tc_deltas_append:
  "merge_tc_deltas m (ts @ ts') = merge_tc_deltas (merge_tc_deltas m ts) ts'"
  by (induction ts arbitrary: m) simp_all

lemma process_delta_fields:
  "content_parts (process_delta st d) =
     content_parts st @ filter (\<lambda>s. s \<noteq> []) (supplied (d_content d))"
  "reasoning_parts (process_delta st d) =
     reasoning_parts st @ filter (\<lambda>s. s \<noteq> []) (supplied (d_reasoning_content d))"
  "tool_calls_by_index (process_delta st d) =
     merge_tc_deltas (tool_calls_by_index st)
       (case d_tool_calls d of None \<Rightarrow> [] | Some l \<Rightarrow> l)"
  "st_finish_reason (process_delta st d) = st_finish_reason st"
  "st_usage (process_delta st d) = st_usage st"
  by (cases "d_content d"; cases "d_reasoning_content d"; cases "d_tool_calls d";
      simp add: process_delta_def Let_def)+

lemma process_chunk_content:
  "content_parts (process_chunk st c) =
     content_parts st @
     filter (\<lambda>s. s \<noteq> []) (case first_delta c of None \<Rightarrow> [] | Some d \<Rightarrow> supplied (d_content d))"
  by (cases "ch_choices c")
     (auto simp: process_chunk_def first_delta_def Let_def process_delta_fields if_str_cases
        split: option.splits)

lemma process_chunk_reasoning:
  "reasoning_parts (process_chunk st c) =
     reasoning_parts st @
     filter (\<lambda>s. s \<noteq> [])
       (case first_delta c of None \<Rightarrow> [] | Some d \<Rightarrow> supplied (d_reasoning_content d))"
  by (cases "ch_choices c")
     (auto simp: process_chunk_def first_delta_def Let_def process_delta_fields if_str_cases
        split: option.splits)

lemma process_chunk_tool_calls:
  "tool_calls_by_index (process_chunk st c) =
     merge_tc_deltas (tool_calls_by_index st) (chunk_tc_deltas c)"
  by (cases "ch_choices c")
     (auto simp: process_chunk_def first_delta_def chunk_tc_deltas_def Let_def
        process_delta_fields if_str_cases split: option.splits)

lemma process_chunk_finish:
  "st_finish_reason (process_chunk st c) =
     last_or (st_finish_reason st) (finish_reasons [c])"
  by (cases "ch_choices c")
     (auto simp: process_chunk_def finish_reasons_def last_or_def Let_def
        process_delta_fields if_str_cases split: option.splits)

lemma process_chunk_usage:
  "st_usage (process_chunk st c) =
     (case ch_choices c of
        [] \<Rightarrow> (case ch_usage c of Some u \<Rightarrow> usage_dict u | None \<Rightarrow> st_usage st)
      | _ # _ \<Rightarrow> st_usage st)"
  by (cases "ch_choices c")
     (auto simp: process_chunk_def Let_def process_delta_fields if_str_cases
        split: option.splits)

lemma concat_filter_nonempty: "concat (filter (\<lambda>s. s \<noteq> []) xs) = concat xs"
  by (induction xs) simp_all

lemma process_chunks_content:
  "concat (content_parts (process_chunks st cs)) =
     concat (content_parts st) @ concat (content_pieces cs)"
  by (induction cs arbitrary: st)
     (simp_all add: content_pieces_def process_chunk_content concat_filter_nonempty)

lemma process_chunks_reasoning:
  "concat (reasoning_parts (process_chunks st cs)) =
     concat (reasoning_parts st) @ concat (reasoning_pieces cs)"
  by (induction cs arbitrary: st)
     (simp_all add: reasoning_pieces_def process_chunk_reasoning concat_filter_nonempty)

lemma finish_reasons_Cons: "finish_reasons (c # cs) = finish_reasons [c] @ finish_reasons cs"
  by (simp add: finish_reasons_def)

lemma last_or_append: "last_or (last_or d xs) ys = last_or d (xs @ ys)"
  by (simp add: last_or_def)

lemma process_chunks_finish:
  "st_finish_reason (process_chunks st cs) = last_or (st_finish_reason st) (finish_reasons cs)"
proof (induction cs arbitrary: st)
  case Nil
  show ?case by (simp add: finish_reasons_def last_or_def)
next
  case (Cons c cs)
  have "st_finish_reason (process_chunks st (c # cs)) =
          last_or (last_or (st_finish_reason st) (finish_reasons [c])) (finish_reasons cs)"
    by (simp add: Cons.IH process_chunk_finish)
  also have "\<dots> = last_or (st_finish_reason st) (finish_reasons (c # cs))"
    by (simp only: last_or_append finish_reasons_Cons [of c cs])
  finally show ?case .
qed

lemma process_chunks_tool_calls:
  "tool_calls_by_index (process_chunks st cs) =
     merge_tc_deltas (tool_calls_by_index st) (all_tc_deltas cs)"
  by (induction cs arbitrary: st)
     (simp_all add: all_tc_deltas_def process_chunk_tool_calls merge_tc_deltas_append)

lemma process_chunks_no_usage:
  "\<forall>c\<in>set cs. ch_usage c = None \<Longrightarrow> st_usage (process_chunks st cs) = st_usage st"
  by (induction cs arbitrary: st)
     (simp_all add: process_chunk_usage split: list.splits)

subsection \<open>The fragment dictionary\<close>

lemma merged_Nil: "merged e [] = e"
  by (simp add: merged_def supplied_ids_def supplied_names_def supplied_args_def last_or_def)

lemma merged_Cons: "merged e (t # fs) = merged (update_entry t e) fs"
  by (cases "td_id t"; cases "td_function t")
     (auto simp: merged_def update_entry_def supplied_ids_def supplied_names_def
        supplied_args_def last_or_def if_str_cases Let_def split: option.splits)

lemma map_of_merge_tc_delta:
  "map_of (merge_tc_delta m t) =
     (map_of m)(td_index t \<mapsto>
        update_entry t (case map_of m (td_index t) of None \<Rightarrow> new_entry | Some e \<Rightarrow> e))"
  by (simp add: merge_tc_delta_def Let_def update_conv')

lemma map_of_merge_tc_deltas:
  "map_of (merge_tc_deltas m ts) i =
     (if filter (\<lambda>t. td_index t = i) ts = [] then map_of m i
      else Some (merged (case map_of m i of None \<Rightarrow> new_entry | Some e \<Rightarrow> e)
                   (filter (\<lambda>t. td_index t = i) ts)))"
proof (induction ts arbitrary: m)
  case Nil
  show ?case by simp
next
  case (Cons t ts)
  show ?case
  proof (cases "td_index t = i")
    case True
    then show ?thesis
      by (simp add: Cons.IH map_of_merge_tc_delta merged_Cons merged_Nil)
  next
    case False
    then show ?thesis
      by (simp add: Cons.IH map_of_merge_tc_delta)
  qed
qed

lemma distinct_merge_tc_deltas:
  "distinct (map fst m) \<Longrightarrow> distinct (map fst (merge_tc_deltas m ts))"
  by (induction ts arbitrary: m) (simp_all add: merge_tc_delta_def Let_def distinct_update)

lemma keys_merge_tc_deltas:
  "fst ` set (merge_tc_deltas m ts) = fst ` set m \<union> td_index ` set ts"
  by (induction ts arbitrary: m) (auto simp: merge_tc_delta_def Let_def dom_update)

lemma distinct_sort_key_fst:
  "distinct (map fst m) \<Longrightarrow> distinct (map fst (sort_key fst m))"
  by (induction m) (auto simp: distinct_insort_key)

lemma map_of_sort_key_fst:
  "distinct (map fst m) \<Longrightarrow> map_of (sort_key fst m) = map_of m"
  by (rule map_of_inject_set [THEN iffD2]) (simp_all add: distinct_sort_key_fst)

lemma sorted_distinct_strict:
  "sorted xs \<Longrightarrow> distinct xs \<Longrightarrow> sorted_wrt (<) (xs :: int list)"
  by (simp add: strict_sorted_iff)

lemma keys_init: "tool_calls_by_index init_state = []"
  by (simp add: init_state_def)

text \<open>The keys of the dictionary stay distinct, so sorting its items never compares two values.\<close>

lemma distinct_keys:
  "distinct (map fst (tool_calls_by_index (process_chunks init_state cs)))"
  by (simp add: process_chunks_tool_calls keys_init distinct_merge_tc_deltas)

subsection \<open>The assembled tool calls\<close>

lemma tool_calls_indexed:
  "tool_calls (aggregate loads cs) = map snd (indexed_calls loads cs)"
  by (simp add: aggregate_def finish_stream_def indexed_calls_def case_prod_unfold comp_def)

lemma keys_indexed_calls:
  "map fst (indexed_calls loads cs) =
     map fst (sorted_items (tool_calls_by_index (process_chunks init_state cs)))"
  by (simp add: indexed_calls_def case_prod_unfold comp_def)

lemma sorted_indexed_calls: "sorted_wrt (<) (map fst (indexed_calls loads cs))"
  unfolding keys_indexed_calls sorted_items_def
  by (rule sorted_distinct_strict) (simp_all add: distinct_sort_key_fst distinct_keys)

lemma set_indexed_calls:
  "set (map fst (indexed_calls loads cs)) = td_index ` set (all_tc_deltas cs)"
  unfolding keys_indexed_calls sorted_items_def
  by (simp add: process_chunks_tool_calls keys_init keys_merge_tc_deltas)

lemma map_of_indexed_calls:
  "map_of (indexed_calls loads cs) i =
     (if fragments i cs = [] then None
      else Some (assemble loads (merged new_entry (fragments i cs))))"
proof -
  let ?m = "tool_calls_by_index (process_chunks init_state cs)"
  have "map_of (indexed_calls loads cs) i = map_option (assemble loads) (map_of (sort_key fst ?m) i)"
    by (simp add: indexed_calls_def sorted_items_def map_of_map)
  also have "\<dots> = map_option (assemble loads) (map_of ?m i)"
    by (simp add: map_of_sort_key_fst distinct_keys)
  also have "\<dots> = (if fragments i cs = [] then None
      else Some (assemble loads (merged new_entry (fragments i cs))))"
    by (simp add: process_chunks_tool_calls keys_init map_of_merge_tc_deltas fragments_def)
  finally show ?thesis .
qed

lemma assemble_merged:
  "tcr_id (assemble loads (merged new_entry fs)) = last_or [] (supplied_ids fs)"
  "tcr_name (assemble loads (merged new_entry fs)) = last_or [] (supplied_names fs)"
  "tcr_arguments (assemble loads (merged new_entry fs)) =
     (if concat (supplied_args fs) = [] then JDict [] else loads (concat (supplied_args fs)))"
  by (simp_all add: assemble_def merged_def new_entry_def)


lemma indexed_call_exists:
  assumes "fragments i cs \<noteq> []"
  shows "map_of (indexed_calls loads cs) i =
           Some (assemble loads (merged new_entry (fragments i cs)))"
    and "assemble loads (merged new_entry (fragments i cs)) \<in>
           set (tool_calls (aggregate loads cs))"
proof -
  show m: "map_of (indexed_calls loads cs) i =
      Some (assemble loads (merged new_entry (fragments i cs)))"
    using assms by (simp add: map_of_indexed_calls)
  from map_of_SomeD [OF m]
  have "snd (i, assemble loads (merged new_entry (fragments i cs))) \<in>
          snd ` set (indexed_calls loads cs)"
    by (rule imageI)
  then show "assemble loads (merged new_entry (fragments i cs)) \<in>
      set (tool_calls (aggregate loads cs))"
    by (simp add: tool_calls_indexed)
qed

subsection \<open>The response, field by field\<close>

lemma join_or_None_concat:
  "join_or_None parts = (if concat parts = [] then None else Some (concat parts))"
  by (simp add: join_or_None_def)

lemma init_fields:
  "content_parts init_state = []" "reasoning_parts init_state = []"
  "st_finish_reason init_state = ''stop''" "st_usage init_state = []"
  by (simp_all add: init_state_def)

lemma aggregate_fields:
  "content (aggregate loads cs) = join_or_None (content_parts (process_chunks init_state cs))"
  "reasoning_content (aggregate loads cs) =
     join_or_None (reasoning_parts (process_chunks init_state cs))"
  "finish_reason (aggregate loads cs) = st_finish_reason (process_chunks init_state cs)"
  "usage (aggregate loads cs) = st_usage (process_chunks init_state cs)"
  "tool_calls (aggregate loads cs) =
     map (\<lambda>(_, tc). assemble loads tc)
       (sorted_items (tool_calls_by_index (process_chunks init_state cs)))"
  by (simp_all add: aggregate_def finish_stream_def)

lemma parse_nonempty:
  "cp_choices c = choice # rest \<Longrightarrow>
   parse loads c =
     Inr \<lparr>content = m_content (cc_message choice),
          tool_calls = map (parse_tool_call loads)
            (case m_tool_calls (cc_message choice) of None \<Rightarrow> [] | Some l \<Rightarrow> l),
          finish_reason = if_str (cc_finish_reason choice) (\<lambda>s _. s) ''stop'',
          usage = (case cp_usage c of Some u \<Rightarrow> usage_dict u | None \<Rightarrow> []),
          reasoning_content = or_None (m_reasoning_content (cc_message choice))\<rparr>"
  by (simp add: parse_def Let_def)

lemma parse_tool_calls_nth:
  assumes "cp_choices c = choice # rest"
    and "m_tool_calls (cc_message choice) = Some tcs"
    and "k < length tcs"
  shows "\<exists>r. parse loads c = Inr r \<and> length (tool_calls r) = length tcs \<and>
             tool_calls r ! k = parse_tool_call loads (tcs ! k)"
  using assms by (simp add: parse_nonempty)

lemma try_body_raises:
  "stream p \<Longrightarrow> create_stream p = Inl e \<Longrightarrow> try_body loads p = Inl e"
  "stream p \<Longrightarrow> create_stream p = Inr (cs, Some e) \<Longrightarrow> try_body loads p = Inl e"
  "\<not> stream p \<Longrightarrow> create_completion p = Inl e \<Longrightarrow> try_body loads p = Inl e"
  "\<not> stream p \<Longrightarrow> create_completion p = Inr c \<Longrightarrow> cp_choices c = [] \<Longrightarrow>
     try_body loads p = Inl (PyException ''list index out of range'')"
  by (simp_all add: try_body_def consume_stream_def parse_def)

lemma chat_catches:
  "try_body loads p = Inl (PyException msg) \<Longrightarrow> chat loads p = Inr (error_response msg)"
  by (simp add: chat_def)

subsection \<open>Running the sample inputs\<close>

lemmas run_defs =
  aggregate_def finish_stream_def init_state_def process_chunk_def process_delta_def
  merge_tc_delta_def update_entry_def new_entry_def sorted_items_def assemble_def
  join_or_None_def usage_dict_def delta_chunk_def tc_chunk_def text_chunk_def usage_chunk_def
  sample_loads_def Let_def

lemmas read_defs =
  fragments_def all_tc_deltas_def chunk_tc_deltas_def first_delta_def supplied_ids_def
  supplied_names_def supplied_args_def finish_reasons_def content_pieces_def
  reasoning_pieces_def delta_chunk_def tc_chunk_def text_chunk_def usage_chunk_def

lemma sample_decoders_agree: "\<forall>s v. sample_strict s = Some v \<longrightarrow> sample_loads s = v"
  by (simp add: sample_strict_def sample_loads_def)

text \<open>A fragment of index 1 that arrives before one of index 0 comes second in the output.\<close>

lemma out_of_order_example:
  "tool_calls (aggregate sample_loads
     [tc_chunk 1 (Some ''call_b'') (Some ''g'') (Some ''{}''),
      tc_chunk 0 (Some ''call_a'') (Some ''f'') None]) =
   [\<lparr>tcr_id = ''call_a'', tcr_name = ''f'', tcr_arguments = JDict []\<rparr>,
    \<lparr>tcr_id = ''call_b'', tcr_name = ''g'', tcr_arguments = JDict []\<rparr>]"
  by (simp add: run_defs)

section \<open>The claims\<close>

subsection \<open>C1: the error boundary\<close>

text \<open>
  Claim C1, as the code has it. When the body of the \<^verbatim>\<open>try\<close> block raises an
  instance of \<^verbatim>\<open>Exception\<close> (the call of the completion source raises it, the
  stream raises it after any number of chunks, or the non-stream parser raises
  \<^verbatim>\<open>IndexError\<close> on an empty list of choices), \<^verbatim>\<open>chat\<close> returns a
  response whose finish reason is \<^verbatim>\<open>"error"\<close> and whose content is the non-empty
  string \<^verbatim>\<open>"Error: "\<close> followed by the message; no instance of
  \<^verbatim>\<open>Exception\<close> ever leaves \<^verbatim>\<open>chat\<close>. An exception outside
  \<^verbatim>\<open>Exception\<close> is not caught by \<^verbatim>\<open>except Exception\<close> and leaves
  \<^verbatim>\<open>chat\<close> as it is.
\<close>

theorem chat_error_boundary:
  "(try_body loads p = Inl (PyException msg) \<longrightarrow>
      chat loads p = Inr (error_response msg) \<and>
      finish_reason (error_response msg) = ''error'' \<and>
      content (error_response msg) = Some (''Error: '' @ msg) \<and>
      ''Error: '' @ msg \<noteq> []) \<and>
   (stream p \<and> create_stream p = Inl (PyException msg) \<longrightarrow>
      chat loads p = Inr (error_response msg)) \<and>
   (stream p \<and> create_stream p = Inr (cs, Some (PyException msg)) \<longrightarrow>
      chat loads p = Inr (error_response msg)) \<and>
   (\<not> stream p \<and> create_completion p = Inl (PyException msg) \<longrightarrow>
      chat loads p = Inr (error_response msg)) \<and>
   (\<not> stream p \<and> create_completion p = Inr c \<and> cp_choices c = [] \<longrightarrow>
      chat loads p = Inr (error_response ''list index out of range'')) \<and>
   chat loads p \<noteq> Inl (PyException msg') \<and>
   (try_body loads p = Inl (PyBaseException msg) \<longrightarrow> chat loads p = Inl (PyBaseException msg))"
proof -
  have never: "chat loads p \<noteq> Inl (PyException msg')"
    by (simp add: chat_def split: sum.splits py_exc.splits)
  have pass: "try_body loads p = Inl (PyBaseException msg) \<longrightarrow>
      chat loads p = Inl (PyBaseException msg)"
    by (simp add: chat_def)
  have shape: "finish_reason (error_response msg) = ''error'' \<and>
      content (error_response msg) = Some (''Error: '' @ msg) \<and> ''Error: '' @ msg \<noteq> []"
    by (simp add: error_response_def)
  show ?thesis
    using never pass shape chat_catches try_body_raises by blast
qed

text \<open>
  A stream that delivers one chunk and then fails with a connection error: the caller gets
  the error response.
\<close>

theorem chat_error_boundary_witness:
  "try_body sample_loads
     (stream_provider
        ([text_chunk (Some ''Hel'') None None], Some (PyException ''Connection error.'')))
     = Inl (PyException ''Connection error.'') \<and>
   chat sample_loads
     (stream_provider
        ([text_chunk (Some ''Hel'') None None], Some (PyException ''Connection error.'')))
     = Inr \<lparr>content = Some ''Error: Connection error.'', tool_calls = [],
            finish_reason = ''error'', usage = [], reasoning_content = None\<rparr>"
proof -
  let ?p = "stream_provider
    ([text_chunk (Some ''Hel'') None None], Some (PyException ''Connection error.''))"
  have h: "try_body sample_loads ?p = Inl (PyException ''Connection error.'')"
    by (simp add: try_body_def consume_stream_def stream_provider_def)
  from chat_error_boundary [of sample_loads ?p "''Connection error.''"] h
  have "chat sample_loads ?p = Inr (error_response ''Connection error.'')"
    by blast
  with h show ?thesis by (simp add: error_response_def)
qed

text \<open>
  The claim as stated ("no exception ever propagates out of \<^verbatim>\<open>chat\<close>") fails when
  the task is cancelled while the stream is awaited: \<^verbatim>\<open>asyncio.CancelledError\<close> is
  not an \<^verbatim>\<open>Exception\<close>, and \<^verbatim>\<open>chat\<close> raises it.
\<close>

theorem chat_cancellation_propagates:
  "chat sample_loads cancelled_stream = Inl (PyBaseException [])"
  by (simp add: chat_def try_body_def consume_stream_def cancelled_stream_def
      stream_provider_def)

subsection \<open>C2: empty and undecodable argument strings\<close>

text \<open>
  Claim C2, as the code has it. In the stream path every index that received a fragment
  yields one tool call, with the last id and name supplied for that index; its arguments
  are the empty mapping when the accumulated argument string is empty, and otherwise
  exactly the value the lenient decoder returns for the accumulated string, whether or not
  that value is a mapping: the code has no fallback to the empty mapping. In the
  non-stream path the response has exactly one call for every tool call of the message, in
  the same order and with that call's id and name, whatever its arguments are; a non-empty
  argument string is replaced by the value the decoder returns for it, and arguments that
  are already structured are passed on as they are. No call is dropped.
\<close>

theorem tool_call_arguments_as_decoded:
  "(fragments i cs \<noteq> [] \<longrightarrow>
      (\<exists>r. map_of (indexed_calls loads cs) i = Some r \<and>
           r \<in> set (tool_calls (aggregate loads cs)) \<and>
           tcr_id r = last_or [] (supplied_ids (fragments i cs)) \<and>
           tcr_name r = last_or [] (supplied_names (fragments i cs)) \<and>
           tcr_arguments r =
             (if concat (supplied_args (fragments i cs)) = [] then JDict []
              else loads (concat (supplied_args (fragments i cs)))))) \<and>
   (cp_choices c = choice # rest \<and>
    tcs = (case m_tool_calls (cc_message choice) of None \<Rightarrow> [] | Some l \<Rightarrow> l) \<longrightarrow>
      (\<exists>r. parse loads c = Inr r \<and> length (tool_calls r) = length tcs \<and>
           (\<forall>k<length tcs.
              tcr_id (tool_calls r ! k) = tc_id (tcs ! k) \<and>
              tcr_name (tool_calls r ! k) = fn_name (tc_function (tcs ! k)) \<and>
              (\<forall>s. fn_arguments (tc_function (tcs ! k)) = ArgString s \<and> s \<noteq> [] \<longrightarrow>
                 tool_calls r ! k =
                   \<lparr>tcr_id = tc_id (tcs ! k), tcr_name = fn_name (tc_function (tcs ! k)),
                    tcr_arguments = loads s\<rparr>) \<and>
              (\<forall>v. fn_arguments (tc_function (tcs ! k)) = ArgStructured v \<longrightarrow>
                 tool_calls r ! k =
                   \<lparr>tcr_id = tc_id (tcs ! k), tcr_name = fn_name (tc_function (tcs ! k)),
                    tcr_arguments = v\<rparr>))))"
proof (intro conjI impI)
  assume ne: "fragments i cs \<noteq> []"
  show "\<exists>r. map_of (indexed_calls loads cs) i = Some r \<and>
           r \<in> set (tool_calls (aggregate loads cs)) \<and>
           tcr_id r = last_or [] (supplied_ids (fragments i cs)) \<and>
           tcr_name r = last_or [] (supplied_names (fragments i cs)) \<and>
           tcr_arguments r =
             (if concat (supplied_args (fragments i cs)) = [] then JDict []
              else loads (concat (supplied_args (fragments i cs))))"
    using indexed_call_exists [OF ne, of loads]
    by (intro exI [of _ "assemble loads (merged new_entry (fragments i cs))"])
       (simp add: assemble_merged)
next
  assume h: "cp_choices c = choice # rest \<and>
    tcs = (case m_tool_calls (cc_message choice) of None \<Rightarrow> [] | Some l \<Rightarrow> l)"
  define r where "r =
     \<lparr>content = m_content (cc_message choice),
      tool_calls = map (parse_tool_call loads) tcs,
      finish_reason = if_str (cc_finish_reason choice) (\<lambda>s _. s) ''stop'',
      usage = (case cp_usage c of Some u \<Rightarrow> usage_dict u | None \<Rightarrow> []),
      reasoning_content = or_None (m_reasoning_content (cc_message choice))\<rparr>"
  from h have p: "parse loads c = Inr r"
    by (simp add: parse_nonempty r_def)
  have len: "length (tool_calls r) = length tcs"
    by (simp add: r_def)
  have each: "tcr_id (tool_calls r ! k) = tc_id (tcs ! k) \<and>
      tcr_name (tool_calls r ! k) = fn_name (tc_function (tcs ! k)) \<and>
      (\<forall>s. fn_arguments (tc_function (tcs ! k)) = ArgString s \<and> s \<noteq> [] \<longrightarrow>
         tool_calls r ! k =
           \<lparr>tcr_id = tc_id (tcs ! k), tcr_name = fn_name (tc_function (tcs ! k)),
            tcr_arguments = loads s\<rparr>) \<and>
      (\<forall>v. fn_arguments (tc_function (tcs ! k)) = ArgStructured v \<longrightarrow>
         tool_calls r ! k =
           \<lparr>tcr_id = tc_id (tcs ! k), tcr_name = fn_name (tc_function (tcs ! k)),
            tcr_arguments = v\<rparr>)"
    if "k < length tcs" for k
    using that by (simp add: r_def parse_tool_call_def)
  from p len each
  show "\<exists>r. parse loads c = Inr r \<and> length (tool_calls r) = length tcs \<and>
           (\<forall>k<length tcs.
              tcr_id (tool_calls r ! k) = tc_id (tcs ! k) \<and>
              tcr_name (tool_calls r ! k) = fn_name (tc_function (tcs ! k)) \<and>
              (\<forall>s. fn_arguments (tc_function (tcs ! k)) = ArgString s \<and> s \<noteq> [] \<longrightarrow>
                 tool_calls r ! k =
                   \<lparr>tcr_id = tc_id (tcs ! k), tcr_name = fn_name (tc_function (tcs ! k)),
                    tcr_arguments = loads s\<rparr>) \<and>
              (\<forall>v. fn_arguments (tc_function (tcs ! k)) = ArgStructured v \<longrightarrow>
                 tool_calls r ! k =
                   \<lparr>tcr_id = tc_id (tcs ! k), tcr_name = fn_name (tc_function (tcs ! k)),
                    tcr_arguments = v\<rparr>))"
    by blast
qed

text \<open>
  A streamed call that never receives an argument substring gets the empty mapping; a
  non-stream call whose argument string cannot be repaired gets what the decoder returns;
  a non-stream call whose argument string is empty is still there, with its id and name.
\<close>

theorem tool_call_arguments_as_decoded_witness:
  \<open>fragments 0 [tc_chunk 0 (Some ''call_1'') (Some ''f'') None] \<noteq> [] \<and>
   (\<exists>r. map_of (indexed_calls sample_loads [tc_chunk 0 (Some ''call_1'') (Some ''f'') None]) 0
          = Some r \<and>
        r \<in> set (tool_calls
                   (aggregate sample_loads [tc_chunk 0 (Some ''call_1'') (Some ''f'') None])) \<and>
        tcr_id r = ''call_1'' \<and> tcr_name r = ''f'' \<and> tcr_arguments r = JDict []) \<and>
   (\<exists>r. parse sample_loads (tool_completion ''call_2'' ''g'' (ArgString ''???'')) = Inr r \<and>
        length (tool_calls r) = 1 \<and>
        tool_calls r ! 0 = \<lparr>tcr_id = ''call_2'', tcr_name = ''g'', tcr_arguments = JStr []\<rparr>) \<and>
   (\<exists>r. parse sample_loads (tool_completion ''call_3'' ''h'' (ArgString [])) = Inr r \<and>
        length (tool_calls r) = 1 \<and>
        tcr_id (tool_calls r ! 0) = ''call_3'' \<and> tcr_name (tool_calls r ! 0) = ''h'')\<close>
proof -
  let ?cs = "[tc_chunk 0 (Some ''call_1'') (Some ''f'') None]"
  let ?c = "tool_completion ''call_2'' ''g'' (ArgString ''???'')"
  let ?tc = "\<lparr>tc_id = ''call_2'',
             tc_function = \<lparr>fn_name = ''g'', fn_arguments = ArgString ''???''\<rparr>\<rparr>"
  let ?d = "tool_completion ''call_3'' ''h'' (ArgString [])"
  let ?td = "\<lparr>tc_id = ''call_3'',
             tc_function = \<lparr>fn_name = ''h'', fn_arguments = ArgString []\<rparr>\<rparr>"
  have h1: "fragments 0 ?cs \<noteq> []"
    by (simp add: read_defs)
  have h2: "cp_choices ?c = hd (cp_choices ?c) # [] \<and>
      [?tc] = (case m_tool_calls (cc_message (hd (cp_choices ?c))) of
                 None \<Rightarrow> [] | Some l \<Rightarrow> l)"
    by (simp add: tool_completion_def)
  have h3: "cp_choices ?d = hd (cp_choices ?d) # [] \<and>
      [?td] = (case m_tool_calls (cc_message (hd (cp_choices ?d))) of
                 None \<Rightarrow> [] | Some l \<Rightarrow> l)"
    by (simp add: tool_completion_def)
  note t = tool_call_arguments_as_decoded
    [of 0 ?cs sample_loads ?c "hd (cp_choices ?c)" "[]" "[?tc]"]
  note t' = tool_call_arguments_as_decoded
    [of 0 ?cs sample_loads ?d "hd (cp_choices ?d)" "[]" "[?td]"]
  from t h1 have a: "\<exists>r. map_of (indexed_calls sample_loads ?cs) 0 = Some r \<and>
           r \<in> set (tool_calls (aggregate sample_loads ?cs)) \<and>
           tcr_id r = last_or [] (supplied_ids (fragments 0 ?cs)) \<and>
           tcr_name r = last_or [] (supplied_names (fragments 0 ?cs)) \<and>
           tcr_arguments r =
             (if concat (supplied_args (fragments 0 ?cs)) = [] then JDict []
              else sample_loads (concat (supplied_args (fragments 0 ?cs))))"
    by blast
  from a have a': "\<exists>r. map_of (indexed_calls sample_loads ?cs) 0 = Some r \<and>
        r \<in> set (tool_calls (aggregate sample_loads ?cs)) \<and>
        tcr_id r = ''call_1'' \<and> tcr_name r = ''f'' \<and> tcr_arguments r = JDict []"
    by (simp add: read_defs last_or_def)
  from t h2 obtain r where r: "parse sample_loads ?c = Inr r"
      "length (tool_calls r) = length [?tc]"
      "\<forall>k<length [?tc].
         \<forall>s. fn_arguments (tc_function ([?tc] ! k)) = ArgString s \<and> s \<noteq> [] \<longrightarrow>
           tool_calls r ! k =
             \<lparr>tcr_id = tc_id ([?tc] ! k), tcr_name = fn_name (tc_function ([?tc] ! k)),
              tcr_arguments = sample_loads s\<rparr>"
    by blast
  from r(3) have "tool_calls r ! 0 =
      \<lparr>tcr_id = ''call_2'', tcr_name = ''g'', tcr_arguments = sample_loads ''???''\<rparr>"
    by simp
  with r have b': "\<exists>r. parse sample_loads ?c = Inr r \<and> length (tool_calls r) = 1 \<and>
        tool_calls r ! 0 = \<lparr>tcr_id = ''call_2'', tcr_name = ''g'', tcr_arguments = JStr []\<rparr>"
    by (simp add: sample_loads_def)
  from t' h3 obtain q where q: "parse sample_loads ?d = Inr q"
      "length (tool_calls q) = length [?td]"
      "\<forall>k<length [?td].
         tcr_id (tool_calls q ! k) = tc_id ([?td] ! k) \<and>
         tcr_name (tool_calls q ! k) = fn_name (tc_function ([?td] ! k))"
    by blast
  from q(3) have "tcr_id (tool_calls q ! 0) = ''call_3'' \<and> tcr_name (tool_calls q ! 0) = ''h''"
    by simp
  with q have c': "\<exists>r. parse sample_loads ?d = Inr r \<and> length (tool_calls r) = 1 \<and>
        tcr_id (tool_calls r ! 0) = ''call_3'' \<and> tcr_name (tool_calls r ! 0) = ''h''"
    by simp
  from h1 a' b' c' show ?thesis by blast
qed

text \<open>
  The claim as stated fails on an accumulated argument string from which the decoder
  recovers no structure: the decoder returns the empty string, and that string, not the
  empty mapping, becomes the arguments of the call.
\<close>

theorem unrepairable_arguments_not_empty_mapping:
  \<open>sample_loads ''???'' = JStr [] \<and>
   tool_calls
     (aggregate sample_loads [tc_chunk 0 (Some ''call_1'') (Some ''f'') (Some ''???'')]) =
     [\<lparr>tcr_id = ''call_1'', tcr_name = ''f'', tcr_arguments = JStr []\<rparr>] \<and>
   JStr [] \<noteq> JDict []\<close>
  by (simp add: run_defs)

subsection \<open>C3: the order of the tool calls\<close>

text \<open>
  Claim C3. For every chunk sequence, the tool calls of the final response are in
  ascending order of the fragment index they were built from, whatever the arrival order
  of the chunks: the list of calls is the list of indexed calls without the indices, the
  indices are strictly increasing and are exactly the indices the chunks carried, and the
  call of an index is assembled from the fragments of that index.
\<close>

theorem tool_calls_ascending_index:
  "tool_calls (aggregate loads cs) = map snd (indexed_calls loads cs) \<and>
   sorted_wrt (<) (map fst (indexed_calls loads cs)) \<and>
   set (map fst (indexed_calls loads cs)) = td_index ` set (all_tc_deltas cs) \<and>
   map_of (indexed_calls loads cs) i =
     (if fragments i cs = [] then None
      else Some (assemble loads (merged new_entry (fragments i cs))))"
  using tool_calls_indexed sorted_indexed_calls set_indexed_calls map_of_indexed_calls
  by blast

subsection \<open>C4: well-formed argument strings\<close>

text \<open>
  Claim C4. Let the lenient decoder agree with the strict decoder on every string the
  strict decoder accepts. Then a tool call whose argument string is well-formed gets the
  strict decode of that string as its arguments: in the non-stream path, where the string
  arrives whole, and in the stream path, where the string is the concatenation, in arrival
  order, of the argument substrings of the fragments of its index, however the chunks
  split it.
\<close>

theorem wellformed_arguments_decode_exactly:
  assumes agree: "\<forall>s v. strict s = Some v \<longrightarrow> loads s = v"
  shows "(cp_choices c = choice # rest \<and> m_tool_calls (cc_message choice) = Some tcs \<and>
          k < length tcs \<and> fn_arguments (tc_function (tcs ! k)) = ArgString s \<and>
          strict s = Some v \<longrightarrow>
            (\<exists>r. parse loads c = Inr r \<and> length (tool_calls r) = length tcs \<and>
                 tcr_arguments (tool_calls r ! k) = v)) \<and>
         (concat (supplied_args (fragments i cs)) = s' \<and> s' \<noteq> [] \<and> strict s' = Some v' \<longrightarrow>
            (\<exists>r. map_of (indexed_calls loads cs) i = Some r \<and>
                 r \<in> set (tool_calls (aggregate loads cs)) \<and>
                 tcr_arguments r = v'))"
proof (intro conjI impI)
  assume h: "cp_choices c = choice # rest \<and> m_tool_calls (cc_message choice) = Some tcs \<and>
          k < length tcs \<and> fn_arguments (tc_function (tcs ! k)) = ArgString s \<and>
          strict s = Some v"
  then obtain r where r: "parse loads c = Inr r" "length (tool_calls r) = length tcs"
      "tool_calls r ! k = parse_tool_call loads (tcs ! k)"
    using parse_tool_calls_nth [of c choice rest tcs k loads] by blast
  from h agree have "loads s = v" by blast
  with h have "tcr_arguments (parse_tool_call loads (tcs ! k)) = v"
    by (simp add: parse_tool_call_def)
  with r show "\<exists>r. parse loads c = Inr r \<and> length (tool_calls r) = length tcs \<and>
                 tcr_arguments (tool_calls r ! k) = v"
    by simp
next
  assume h: "concat (supplied_args (fragments i cs)) = s' \<and> s' \<noteq> [] \<and> strict s' = Some v'"
  then have ne: "fragments i cs \<noteq> []"
    by (auto simp: supplied_args_def)
  from h agree have "loads s' = v'" by blast
  with h have "tcr_arguments (assemble loads (merged new_entry (fragments i cs))) = v'"
    by (simp add: assemble_merged)
  with indexed_call_exists [OF ne, of loads]
  show "\<exists>r. map_of (indexed_calls loads cs) i = Some r \<and>
                 r \<in> set (tool_calls (aggregate loads cs)) \<and>
                 tcr_arguments r = v'"
    by blast
qed

text \<open>
  The document \<^verbatim>\<open>{"a":1,"b":2}\<close>, whole in a completion object and split over three
  chunks, decodes to the mapping of \<open>a\<close> to 1 and \<open>b\<close> to 2.
\<close>

theorem wellformed_arguments_decode_exactly_witness:
  \<open>(\<exists>r. parse sample_loads (tool_completion ''call_2'' ''g'' (ArgString ''{"a":1,"b":2}''))
          = Inr r \<and>
        length (tool_calls r) = 1 \<and>
        tcr_arguments (tool_calls r ! 0) = JDict [(''a'', JInt 1), (''b'', JInt 2)]) \<and>
   concat (supplied_args (fragments 0 split_arguments)) = ''{"a":1,"b":2}'' \<and>
   (\<exists>r. map_of (indexed_calls sample_loads split_arguments) 0 = Some r \<and>
        r \<in> set (tool_calls (aggregate sample_loads split_arguments)) \<and>
        tcr_arguments r = JDict [(''a'', JInt 1), (''b'', JInt 2)])\<close>
proof -
  let ?s = \<open>''{"a":1,"b":2}''\<close>
  let ?v = "JDict [(''a'', JInt 1), (''b'', JInt 2)]"
  let ?c = "tool_completion ''call_2'' ''g'' (ArgString ?s)"
  let ?tc = "\<lparr>tc_id = ''call_2'',
             tc_function = \<lparr>fn_name = ''g'', fn_arguments = ArgString ?s\<rparr>\<rparr>"
  have st: "sample_strict ?s = Some ?v"
    by (simp add: sample_strict_def)
  have h1: "cp_choices ?c = hd (cp_choices ?c) # [] \<and>
      m_tool_calls (cc_message (hd (cp_choices ?c))) = Some [?tc] \<and>
      0 < length [?tc] \<and> fn_arguments (tc_function ([?tc] ! 0)) = ArgString ?s \<and>
      sample_strict ?s = Some ?v"
    by (simp add: tool_completion_def sample_strict_def)
  have h2: "concat (supplied_args (fragments 0 split_arguments)) = ?s"
    by (simp add: split_arguments_def read_defs)
  have h3: "?s \<noteq> []"
    by simp
  note t = wellformed_arguments_decode_exactly
    [OF sample_decoders_agree,
      of ?c "hd (cp_choices ?c)" "[]" "[?tc]" 0 ?s ?v 0 split_arguments ?s ?v]
  from t h1 have a: "\<exists>r. parse sample_loads ?c = Inr r \<and>
      length (tool_calls r) = length [?tc] \<and> tcr_arguments (tool_calls r ! 0) = ?v"
    by blast
  from t h2 h3 st have b: "\<exists>r. map_of (indexed_calls sample_loads split_arguments) 0 = Some r \<and>
        r \<in> set (tool_calls (aggregate sample_loads split_arguments)) \<and>
        tcr_arguments r = ?v"
    by blast
  from a have a': "\<exists>r. parse sample_loads ?c = Inr r \<and> length (tool_calls r) = 1 \<and>
      tcr_arguments (tool_calls r ! 0) = ?v"
    by simp
  from a' h2 b show ?thesis by blast
qed

subsection \<open>C5: content and reasoning content\<close>

text \<open>
  Claim C5. For every chunk sequence, the content of the final response is the
  concatenation, in arrival order, of the content substrings of the deltas, and it is
  absent, not the empty string, when that concatenation is empty (in particular when no
  chunk supplied content); the reasoning content obeys the same rule over the reasoning
  substrings.
\<close>

theorem stream_content_is_concatenation:
  "content (aggregate loads cs) =
     (if concat (content_pieces cs) = [] then None else Some (concat (content_pieces cs))) \<and>
   reasoning_content (aggregate loads cs) =
     (if concat (reasoning_pieces cs) = [] then None
      else Some (concat (reasoning_pieces cs)))"
  by (simp add: aggregate_fields join_or_None_concat process_chunks_content
      process_chunks_reasoning init_fields)

subsection \<open>C6: the finish reason\<close>

text \<open>
  Claim C6. For every chunk sequence, the finish reason of the final response is the last
  non-empty finish reason carried by the first choice of a chunk, and \<^verbatim>\<open>"stop"\<close>
  when there is none; a chunk without a non-empty finish reason leaves the finish reason
  captured so far as it is. In the non-stream path the finish reason is that of the first
  choice, and \<^verbatim>\<open>"stop"\<close> when the source omits it or gives the empty string.
\<close>

theorem finish_reason_last_nonempty:
  "finish_reason (aggregate loads cs) = last_or ''stop'' (finish_reasons cs) \<and>
   (finish_reasons [c] = [] \<longrightarrow>
      finish_reason (aggregate loads (cs @ [c])) = finish_reason (aggregate loads cs)) \<and>
   (cp_choices r = choice # rest \<longrightarrow>
      (\<exists>resp. parse loads r = Inr resp \<and>
         finish_reason resp =
           (case cc_finish_reason choice of
              None \<Rightarrow> ''stop''
            | Some s \<Rightarrow> if s = [] then ''stop'' else s)))"
proof (intro conjI impI)
  show a: "finish_reason (aggregate loads cs) = last_or ''stop'' (finish_reasons cs)" for cs
    by (simp add: aggregate_fields process_chunks_finish init_fields)
  show "finish_reason (aggregate loads (cs @ [c])) = finish_reason (aggregate loads cs)"
    if "finish_reasons [c] = []"
  proof -
    have "finish_reasons (cs @ [c]) = finish_reasons cs @ finish_reasons [c]"
      by (simp add: finish_reasons_def)
    with that show ?thesis by (simp add: a)
  qed
  show "\<exists>resp. parse loads r = Inr resp \<and>
         finish_reason resp =
           (case cc_finish_reason choice of
              None \<Rightarrow> ''stop''
            | Some s \<Rightarrow> if s = [] then ''stop'' else s)"
    if "cp_choices r = choice # rest"
    using that by (simp add: parse_nonempty if_str_cases)
qed

text \<open>
  A chunk with an empty finish reason after one that said \<^verbatim>\<open>"length"\<close> leaves
  \<^verbatim>\<open>"length"\<close>; a completion object passes its finish reason on.
\<close>

theorem finish_reason_last_nonempty_witness:
  "finish_reasons [text_chunk (Some ''x'') None (Some [])] = [] \<and>
   finish_reason (aggregate sample_loads
     ([text_chunk (Some ''a'') None (Some ''length'')] @
      [text_chunk (Some ''x'') None (Some [])]))
     = ''length'' \<and>
   (\<exists>resp. parse sample_loads (tool_completion ''call_2'' ''g'' (ArgString ''{}'')) = Inr resp \<and>
      finish_reason resp = ''tool_calls'')"
proof -
  let ?cs = "[text_chunk (Some ''a'') None (Some ''length'')]"
  let ?c = "text_chunk (Some ''x'') None (Some [])"
  let ?r = "tool_completion ''call_2'' ''g'' (ArgString ''{}'')"
  have h1: "finish_reasons [?c] = []"
    by (simp add: read_defs)
  have h2: "cp_choices ?r = hd (cp_choices ?r) # []"
    by (simp add: tool_completion_def)
  have e: "finish_reasons ?cs = [''length'']"
    by (simp add: read_defs)
  note t = finish_reason_last_nonempty [of sample_loads ?cs ?c ?r "hd (cp_choices ?r)" "[]"]
  from t h1 e have a: "finish_reason (aggregate sample_loads (?cs @ [?c])) = ''length''"
    by (simp add: last_or_def)
  from t h2 have "\<exists>resp. parse sample_loads ?r = Inr resp \<and>
      finish_reason resp =
        (case cc_finish_reason (hd (cp_choices ?r)) of
           None \<Rightarrow> ''stop'' | Some s \<Rightarrow> if s = [] then ''stop'' else s)"
    by blast
  then have b: "\<exists>resp. parse sample_loads ?r = Inr resp \<and> finish_reason resp = ''tool_calls''"
    by (simp add: tool_completion_def)
  from h1 a b show ?thesis by blast
qed

subsection \<open>C7: the usage-only chunk\<close>

text \<open>
  Claim C7. Processing a chunk that carries no choices but carries a usage object replaces
  the running usage by the prompt, completion and total token counts of that chunk,
  whatever the usage was before (nothing is summed), and changes nothing else: the content
  buffer, the reasoning buffer and the fragment dictionary are as before, and so are the
  content, the reasoning content and the tool calls of the response.
\<close>

theorem usage_only_chunk_frame:
  assumes "ch_choices c = []" and "ch_usage c = Some u"
  shows "process_chunk st c = st\<lparr>st_usage := usage_dict u\<rparr> \<and>
         usage_dict u =
           [(''prompt_tokens'', prompt_tokens u), (''completion_tokens'', completion_tokens u),
            (''total_tokens'', total_tokens u)] \<and>
         content_parts (process_chunk st c) = content_parts st \<and>
         reasoning_parts (process_chunk st c) = reasoning_parts st \<and>
         tool_calls_by_index (process_chunk st c) = tool_calls_by_index st \<and>
         usage (aggregate loads (cs @ [c])) = usage_dict u \<and>
         content (aggregate loads (cs @ [c])) = content (aggregate loads cs) \<and>
         reasoning_content (aggregate loads (cs @ [c])) =
           reasoning_content (aggregate loads cs) \<and>
         tool_calls (aggregate loads (cs @ [c])) = tool_calls (aggregate loads cs)"
proof -
  have step: "process_chunk st c = st\<lparr>st_usage := usage_dict u\<rparr>" for st
    using assms by (simp add: process_chunk_def)
  show ?thesis
    by (simp add: step aggregate_fields process_chunks_append usage_dict_def)
qed

text \<open>
  Two usage-only chunks after a text chunk: the usage is that of the second, not a sum, and
  the content is untouched.
\<close>

theorem usage_only_chunk_frame_witness:
  "ch_choices (usage_chunk 7 5 12) = [] \<and>
   usage (aggregate sample_loads
     ([text_chunk (Some ''hi'') None None, usage_chunk 1 1 2] @ [usage_chunk 7 5 12])) =
     [(''prompt_tokens'', 7), (''completion_tokens'', 5), (''total_tokens'', 12)] \<and>
   content (aggregate sample_loads
     ([text_chunk (Some ''hi'') None None, usage_chunk 1 1 2] @ [usage_chunk 7 5 12])) =
     Some ''hi''"
proof -
  let ?u = "\<lparr>prompt_tokens = 7, completion_tokens = 5, total_tokens = 12\<rparr>"
  let ?cs = "[text_chunk (Some ''hi'') None None, usage_chunk 1 1 2]"
  have h1: "ch_choices (usage_chunk 7 5 12) = []"
    and h2: "ch_usage (usage_chunk 7 5 12) = Some ?u"
    by (simp_all add: usage_chunk_def)
  have c: "content (aggregate sample_loads ?cs) = Some ''hi''"
    by (simp add: run_defs)
  from usage_only_chunk_frame [OF h1 h2, of init_state sample_loads ?cs] h1 c
  show ?thesis by (simp add: usage_dict_def)
qed

subsection \<open>C8: usage on a chunk with choices\<close>

text \<open>
  Claim C8. The usage object of a chunk is used only when the chunk has no choices:
  processing a chunk with at least one choice leaves the running usage, and so the usage
  of the response, unchanged, whether or not the chunk carries a usage object.
\<close>

theorem usage_ignored_with_choices:
  assumes "ch_choices c \<noteq> []"
  shows "st_usage (process_chunk st c) = st_usage st \<and>
         usage (aggregate loads (cs @ [c])) = usage (aggregate loads cs)"
  using assms
  by (cases "ch_choices c")
     (simp_all add: process_chunk_usage aggregate_fields process_chunks_append)

text \<open>A chunk with a choice and a usage object does not replace the usage captured before.\<close>

theorem usage_ignored_with_choices_witness:
  "ch_choices
     (usage_chunk 7 5 12\<lparr>ch_choices := [\<lparr>sc_finish_reason = None, sc_delta = None\<rparr>]\<rparr>) \<noteq> [] \<and>
   usage (aggregate sample_loads
     ([usage_chunk 1 1 2] @
      [usage_chunk 7 5 12\<lparr>ch_choices := [\<lparr>sc_finish_reason = None, sc_delta = None\<rparr>]\<rparr>])) =
     [(''prompt_tokens'', 1), (''completion_tokens'', 1), (''total_tokens'', 2)]"
proof -
  let ?c = "usage_chunk 7 5 12\<lparr>ch_choices := [\<lparr>sc_finish_reason = None, sc_delta = None\<rparr>]\<rparr>"
  have h: "ch_choices ?c \<noteq> []"
    by simp
  have u: "usage (aggregate sample_loads [usage_chunk 1 1 2]) =
      [(''prompt_tokens'', 1), (''completion_tokens'', 1), (''total_tokens'', 2)]"
    by (simp add: run_defs)
  from usage_ignored_with_choices [OF h, of init_state sample_loads "[usage_chunk 1 1 2]"] h u
  show ?thesis by simp
qed

subsection \<open>C9: no usage object\<close>

text \<open>
  Claim C9. A non-stream completion object without a usage object gives a response whose
  usage is the empty mapping, not a mapping of zeros; and when no chunk of a stream
  carries a usage object, the usage of the aggregated response is the empty mapping.
\<close>

theorem usage_absent_stays_empty:
  "(cp_choices r \<noteq> [] \<and> cp_usage r = None \<longrightarrow>
      (\<exists>resp. parse loads r = Inr resp \<and> usage resp = [])) \<and>
   ((\<forall>c\<in>set cs. ch_usage c = None) \<longrightarrow> usage (aggregate loads cs) = [])"
proof (intro conjI impI)
  assume "cp_choices r \<noteq> [] \<and> cp_usage r = None"
  then show "\<exists>resp. parse loads r = Inr resp \<and> usage resp = []"
    by (cases "cp_choices r") (simp_all add: parse_nonempty)
next
  assume "\<forall>c\<in>set cs. ch_usage c = None"
  then show "usage (aggregate loads cs) = []"
    by (simp add: aggregate_fields process_chunks_no_usage init_fields)
qed

text \<open>A completion object and a one-chunk stream, both without a usage object.\<close>

theorem usage_absent_stays_empty_witness:
  "cp_usage (tool_completion ''call_2'' ''g'' (ArgString ''{}'')) = None \<and>
   (\<exists>resp. parse sample_loads (tool_completion ''call_2'' ''g'' (ArgString ''{}'')) = Inr resp \<and>
      usage resp = []) \<and>
   ch_usage (text_chunk (Some ''hi'') None (Some ''stop'')) = None \<and>
   usage (aggregate sample_loads [text_chunk (Some ''hi'') None (Some ''stop'')]) = []"
proof -
  let ?r = "tool_completion ''call_2'' ''g'' (ArgString ''{}'')"
  let ?cs = "[text_chunk (Some ''hi'') None (Some ''stop'')]"
  have h1: "cp_choices ?r \<noteq> [] \<and> cp_usage ?r = None"
    by (simp add: tool_completion_def)
  have h2: "\<forall>c\<in>set ?cs. ch_usage c = None"
    by (simp add: text_chunk_def delta_chunk_def)
  note t = usage_absent_stays_empty [of ?r sample_loads ?cs]
  from t h1 have a: "\<exists>resp. parse sample_loads ?r = Inr resp \<and> usage resp = []"
    by blast
  from t h2 have b: "usage (aggregate sample_loads ?cs) = []"
    by blast
  from h1 h2 a b show ?thesis by simp
qed

subsection \<open>C10: an id or name that is never supplied\<close>

text \<open>
  Claim C10. In the stream aggregator, every index that received a fragment yields a tool
  call whose id and name are the last non-empty ones supplied for that index; when no
  fragment of the index supplies an id (or a name), the id (or the name) of the call is
  the empty string: nothing is made up and the field is never left out.
\<close>

theorem missing_id_or_name_is_empty_string:
  assumes "fragments i cs \<noteq> []"
  shows "\<exists>r. map_of (indexed_calls loads cs) i = Some r \<and>
             r \<in> set (tool_calls (aggregate loads cs)) \<and>
             tcr_id r = last_or [] (supplied_ids (fragments i cs)) \<and>
             tcr_name r = last_or [] (supplied_names (fragments i cs)) \<and>
             (supplied_ids (fragments i cs) = [] \<longrightarrow> tcr_id r = []) \<and>
             (supplied_names (fragments i cs) = [] \<longrightarrow> tcr_name r = [])"
  using indexed_call_exists [OF assms, of loads]
  by (intro exI [of _ "assemble loads (merged new_entry (fragments i cs))"])
     (simp add: assemble_merged last_or_def)

text \<open>A fragment of index 3 that carries arguments but neither an id nor a name.\<close>

theorem missing_id_or_name_is_empty_string_witness:
  \<open>fragments 3 [tc_chunk 3 None None (Some ''{}'')] \<noteq> [] \<and>
   supplied_ids (fragments 3 [tc_chunk 3 None None (Some ''{}'')]) = [] \<and>
   supplied_names (fragments 3 [tc_chunk 3 None None (Some ''{}'')]) = [] \<and>
   (\<exists>r. map_of (indexed_calls sample_loads [tc_chunk 3 None None (Some ''{}'')]) 3 = Some r \<and>
        r \<in> set (tool_calls (aggregate sample_loads [tc_chunk 3 None None (Some ''{}'')])) \<and>
        tcr_id r = [] \<and> tcr_name r = [])\<close>
proof -
  let ?cs = "[tc_chunk 3 None None (Some ''{}'')]"
  have h: "fragments 3 ?cs \<noteq> []"
    and i: "supplied_ids (fragments 3 ?cs) = []"
    and n: "supplied_names (fragments 3 ?cs) = []"
    by (simp_all add: read_defs)
  from missing_id_or_name_is_empty_string [OF h, of sample_loads] i n
  have "\<exists>r. map_of (indexed_calls sample_loads ?cs) 3 = Some r \<and>
        r \<in> set (tool_calls (aggregate sample_loads ?cs)) \<and> tcr_id r = [] \<and> tcr_name r = []"
    by auto
  with h i n show ?thesis by blast
qed

end
